theory Spec2Isabelle
  imports Complex_Main
begin

section \<open>Data model (src/types/index.ts)\<close>

text \<open>
  A JavaScript \<open>Date\<close> is an instant in milliseconds since the epoch, or the
  Invalid Date that \<open>new Date(s)\<close> yields for a string it cannot read. The ISO-8601
  text of a valid instant (\<open>toISOString\<close>) determines the instant, so it is
  modelled by the instant it denotes.
\<close>

datatype date = Date int | InvalidDate

datatype iso = ISO int

text \<open>A thrown value: an \<open>Error\<close> with its message, or any other value.\<close>

datatype thrown = Error string | NonError

text \<open>\<open>Date.prototype.toISOString\<close> throws a RangeError on an Invalid Date.\<close>

fun toISOString :: "date \<Rightarrow> thrown + iso" where
  "toISOString (Date t) = Inr (ISO t)"
| "toISOString InvalidDate = Inl (Error ''Invalid time value'')"

datatype PaymentMethod = cash | check | credit_card | bank_transfer | paypal | other

datatype InvoiceStatus = draft | sent | paid | overdue | cancelled

text \<open>
  The fields that \<open>PaymentFormData\<close>, \<open>CreatePaymentData\<close> and \<open>Payment\<close> share;
  the payment date is a string in the form and a \<open>Date\<close> in the other two.
  JavaScript numbers are carried as rationals.
\<close>

record 'd PaymentFields =
  invoiceId :: string
  amount :: rat
  paymentDate :: 'd
  paymentMethod :: PaymentMethod
  payment_notes :: "string option"

type_synonym PaymentFormData = "string PaymentFields"

type_synonym CreatePaymentData = "date PaymentFields"

record Payment = "date PaymentFields" +
  payment_id :: string
  createdAt :: date

record Session =
  accessToken :: "string option"
  session_error :: "string option"

section \<open>The payment route handlers (src/unnamed/part\_000)\<close>

text \<open>
  What \<open>createSuccessResponse\<close> and \<open>createErrorResponse\<close> are given: the payload,
  or the error code, the message, the HTTP status and the optional details.
\<close>

datatype 'i details = NoDetails | Issues 'i | Caught thrown

datatype 'i response =
    SuccessPayment Payment
  | SuccessId string
  | ErrorResponse string string nat "'i details"

text \<open>
  The request as the handlers see it: what \<open>getServerSession\<close> resolves to (or
  throws) and what \<open>request.json()\<close> resolves to (or throws).
\<close>

record 'b request =
  getServerSession :: "thrown + Session option"
  json :: "thrown + 'b"

text \<open>
  \<open>GoogleSheetsService\<close>, \<open>paymentFormSchema\<close> and the \<open>Date\<close> constructor are not
  part of the sources: the handlers are modelled over any implementation of them.
  The store \<open>'st\<close> is everything the service keeps. A read returns a value or
  throws; a write returns a value or throws, and leaves a store behind in both cases.
\<close>

record ('st, 'b, 'i) env =
  safeParse :: "'b \<Rightarrow> 'i + PaymentFormData"
  newDate :: "string \<Rightarrow> date"
  getAuthenticatedService :: "'st \<Rightarrow> thrown + unit"
  getPayment :: "string \<Rightarrow> 'st \<Rightarrow> thrown + Payment option"
  deletePayment :: "string \<Rightarrow> 'st \<Rightarrow> (thrown + bool) \<times> 'st"
  createPayment :: "CreatePaymentData \<Rightarrow> 'st \<Rightarrow> (thrown + Payment) \<times> 'st"

text \<open>The calls a handler makes on the service, in the order it makes them.\<close>

datatype call =
    GetAuthenticatedService
  | GetPayment string
  | DeletePayment string
  | CreatePayment CreatePaymentData

record ('st, 'i) outcome =
  response :: "'i response"
  store :: "'st"
  calls :: "call list"

text \<open>\<open>!session?.accessToken\<close>: no session, no token, or the empty token.\<close>

fun lacksAccessToken :: "Session option \<Rightarrow> bool" where
  "lacksAccessToken None = True"
| "lacksAccessToken (Some s) =
     (case accessToken s of None \<Rightarrow> True | Some t \<Rightarrow> t = [])"

text \<open>\<open>error instanceof Error ? error.message : fallback\<close>\<close>

fun messageOf :: "thrown \<Rightarrow> string \<Rightarrow> string" where
  "messageOf (Error m) fallback = m"
| "messageOf NonError fallback = fallback"

text \<open>The \<open>catch\<close> block of a handler, entered with the store as the throw left it.\<close>

definition caught :: "string \<Rightarrow> string \<Rightarrow> thrown \<Rightarrow> 'st \<Rightarrow> call list \<Rightarrow> ('st, 'i) outcome" where
  "caught code fallback e st cs =
     \<lparr>response = ErrorResponse code (messageOf e fallback) 500 (Caught e),
      store = st, calls = cs\<rparr>"

definition unauthorized :: "'st \<Rightarrow> ('st, 'i) outcome" where
  "unauthorized st =
     \<lparr>response = ErrorResponse ''UNAUTHORIZED'' ''Authentication required'' 401 NoDetails,
      store = st, calls = []\<rparr>"

definition idRequired :: "'st \<Rightarrow> ('st, 'i) outcome" where
  "idRequired st =
     \<lparr>response = ErrorResponse ''VALIDATION_ERROR'' ''Payment ID is required'' 400 NoDetails,
      store = st, calls = []\<rparr>"

definition notFound :: "'st \<Rightarrow> call list \<Rightarrow> ('st, 'i) outcome" where
  "notFound st cs =
     \<lparr>response = ErrorResponse ''NOT_FOUND'' ''Payment not found'' 404 NoDetails,
      store = st, calls = cs\<rparr>"

definition GET :: "('st, 'b, 'i) env \<Rightarrow> 'b request \<Rightarrow> string \<Rightarrow> 'st \<Rightarrow> ('st, 'i) outcome" where
  "GET env req pid st =
     (case getServerSession req of
        Inl e \<Rightarrow> caught ''FETCH_ERROR'' ''Failed to fetch payment'' e st []
      | Inr session \<Rightarrow>
          if lacksAccessToken session then unauthorized st
          else if pid = [] then idRequired st
          else
            (case getAuthenticatedService env st of
               Inl e \<Rightarrow>
                 caught ''FETCH_ERROR'' ''Failed to fetch payment'' e st [GetAuthenticatedService]
             | Inr _ \<Rightarrow>
                 (case getPayment env pid st of
                    Inl e \<Rightarrow>
                      caught ''FETCH_ERROR'' ''Failed to fetch payment'' e st
                        [GetAuthenticatedService, GetPayment pid]
                  | Inr None \<Rightarrow> notFound st [GetAuthenticatedService, GetPayment pid]
                  | Inr (Some payment) \<Rightarrow>
                      \<lparr>response = SuccessPayment payment, store = st,
                       calls = [GetAuthenticatedService, GetPayment pid]\<rparr>)))"

text \<open>
  The new payment of an update: every field is taken from the validated body, the
  payment date through the \<open>Date\<close> constructor. The handler reads \<open>amount\<close> and
  \<open>invoiceId\<close> of the existing payment into \<open>oldAmount\<close> and \<open>oldInvoiceId\<close> and never
  uses them.
\<close>

definition paymentData :: "('st, 'b, 'i) env \<Rightarrow> PaymentFormData \<Rightarrow> CreatePaymentData" where
  "paymentData env d =
     \<lparr>invoiceId = invoiceId d, amount = amount d,
      paymentDate = newDate env (paymentDate d),
      paymentMethod = paymentMethod d, payment_notes = payment_notes d\<rparr>"

definition PUT :: "('st, 'b, 'i) env \<Rightarrow> 'b request \<Rightarrow> string \<Rightarrow> 'st \<Rightarrow> ('st, 'i) outcome" where
  "PUT env req pid st =
     (case getServerSession req of
        Inl e \<Rightarrow> caught ''UPDATE_ERROR'' ''Failed to update payment'' e st []
      | Inr session \<Rightarrow>
          if lacksAccessToken session then unauthorized st
          else if pid = [] then idRequired st
          else
            (case json req of
               Inl e \<Rightarrow> caught ''UPDATE_ERROR'' ''Failed to update payment'' e st []
             | Inr body \<Rightarrow>
                 (case safeParse env body of
                    Inl issues \<Rightarrow>
                      \<lparr>response =
                         ErrorResponse ''VALIDATION_ERROR'' ''Invalid payment data'' 400 (Issues issues),
                       store = st, calls = []\<rparr>
                  | Inr d \<Rightarrow>
                      (case getAuthenticatedService env st of
                         Inl e \<Rightarrow>
                           caught ''UPDATE_ERROR'' ''Failed to update payment'' e st
                             [GetAuthenticatedService]
                       | Inr _ \<Rightarrow>
                           (case getPayment env pid st of
                              Inl e \<Rightarrow>
                                caught ''UPDATE_ERROR'' ''Failed to update payment'' e st
                                  [GetAuthenticatedService, GetPayment pid]
                            | Inr None \<Rightarrow> notFound st [GetAuthenticatedService, GetPayment pid]
                            | Inr (Some existingPayment) \<Rightarrow>
                                (case deletePayment env pid st of
                                   (Inl e, st1) \<Rightarrow>
                                     caught ''UPDATE_ERROR'' ''Failed to update payment'' e st1
                                       [GetAuthenticatedService, GetPayment pid, DeletePayment pid]
                                 | (Inr _, st1) \<Rightarrow>
                                     (case createPayment env (paymentData env d) st1 of
                                        (Inl e, st2) \<Rightarrow>
                                          caught ''UPDATE_ERROR'' ''Failed to update payment'' e st2
                                            [GetAuthenticatedService, GetPayment pid,
                                             DeletePayment pid, CreatePayment (paymentData env d)]
                                      | (Inr updatedPayment, st2) \<Rightarrow>
                                          \<lparr>response = SuccessPayment updatedPayment, store = st2,
                                           calls =
                                             [GetAuthenticatedService, GetPayment pid,
                                              DeletePayment pid,
                                              CreatePayment (paymentData env d)]\<rparr>)))))))"

definition DELETE :: "('st, 'b, 'i) env \<Rightarrow> 'b request \<Rightarrow> string \<Rightarrow> 'st \<Rightarrow> ('st, 'i) outcome" where
  "DELETE env req pid st =
     (case getServerSession req of
        Inl e \<Rightarrow> caught ''DELETE_ERROR'' ''Failed to delete payment'' e st []
      | Inr session \<Rightarrow>
          if lacksAccessToken session then unauthorized st
          else if pid = [] then idRequired st
          else
            (case getAuthenticatedService env st of
               Inl e \<Rightarrow>
                 caught ''DELETE_ERROR'' ''Failed to delete payment'' e st [GetAuthenticatedService]
             | Inr _ \<Rightarrow>
                 (case deletePayment env pid st of
                    (Inl e, st1) \<Rightarrow>
                      caught ''DELETE_ERROR'' ''Failed to delete payment'' e st1
                        [GetAuthenticatedService, DeletePayment pid]
                  | (Inr success, st1) \<Rightarrow>
                      if \<not> success then notFound st1 [GetAuthenticatedService, DeletePayment pid]
                      else
                        \<lparr>response = SuccessId pid, store = st1,
                         calls = [GetAuthenticatedService, DeletePayment pid]\<rparr>)))"

text \<open>The calls that write to the store, and the responses that report an error.\<close>

fun isWrite :: "call \<Rightarrow> bool" where
  "isWrite (DeletePayment pid) = True"
| "isWrite (CreatePayment d) = True"
| "isWrite c = False"

fun isError :: "'i response \<Rightarrow> bool" where
  "isError (ErrorResponse code message http d) = True"
| "isError r = False"

text \<open>
  An in-memory implementation of the service, used to run the handlers on concrete
  requests: payments are rows, a new payment gets the next identifier
  (\<open>pay-\<close>, \<open>pay-i\<close>, \<open>pay-ii\<close>, ...) and the store's date as \<open>createdAt\<close>.
  Its schema accepts a form whose invoice identifier is present and whose amount is
  positive.
\<close>

record mem =
  rows :: "Payment list"
  issued :: nat
  today :: date

definition memGetPayment :: "string \<Rightarrow> mem \<Rightarrow> thrown + Payment option" where
  "memGetPayment pid st = Inr (find (\<lambda>p. payment_id p = pid) (rows st))"

definition memDeletePayment :: "string \<Rightarrow> mem \<Rightarrow> (thrown + bool) \<times> mem" where
  "memDeletePayment pid st =
     (Inr (pid \<in> set (map payment_id (rows st))),
      st\<lparr>rows := filter (\<lambda>p. payment_id p \<noteq> pid) (rows st)\<rparr>)"

definition memCreatePayment :: "CreatePaymentData \<Rightarrow> mem \<Rightarrow> (thrown + Payment) \<times> mem" where
  "memCreatePayment d st =
     (let p = \<lparr>invoiceId = invoiceId d, amount = amount d, paymentDate = paymentDate d,
                paymentMethod = paymentMethod d, payment_notes = payment_notes d,
                payment_id = ''pay-'' @ replicate (issued st) CHR ''i'', createdAt = today st\<rparr>
      in (Inr p, st\<lparr>rows := rows st @ [p], issued := Suc (issued st)\<rparr>))"

definition memSafeParse :: "PaymentFormData \<Rightarrow> string list + PaymentFormData" where
  "memSafeParse b =
     (if invoiceId b = [] then Inl [''invoiceId'']
      else if amount b \<le> 0 then Inl [''amount'']
      else Inr b)"

definition memNewDate :: "string \<Rightarrow> date" where
  "memNewDate s = (if s = ''1970-01-02'' then Date 86400000 else InvalidDate)"

definition memSheets :: "(mem, PaymentFormData, string list) env" where
  "memSheets =
     \<lparr>safeParse = memSafeParse, newDate = memNewDate,
      getAuthenticatedService = (\<lambda>st. Inr ()),
      getPayment = memGetPayment, deletePayment = memDeletePayment,
      createPayment = memCreatePayment\<rparr>"

text \<open>The same service when the spreadsheet refuses a call.\<close>

definition quota :: thrown where
  "quota = Error ''Quota exceeded''"

definition createFails :: "(mem, PaymentFormData, string list) env" where
  "createFails = memSheets\<lparr>createPayment := (\<lambda>d st. (Inl quota, st))\<rparr>"

definition readFails :: "(mem, PaymentFormData, string list) env" where
  "readFails = memSheets\<lparr>getPayment := (\<lambda>pid st. Inl quota)\<rparr>"

text \<open>A store with one payment of 100 on invoice \<open>inv-1\<close>, and requests on it.\<close>

definition pay0 :: Payment where
  "pay0 =
     \<lparr>invoiceId = ''inv-1'', amount = 100, paymentDate = Date 0, paymentMethod = cash,
      payment_notes = None, payment_id = ''pay-'', createdAt = Date 0\<rparr>"

definition mem1 :: mem where
  "mem1 = \<lparr>rows = [pay0], issued = 1, today = Date 172800000\<rparr>"

definition form35 :: PaymentFormData where
  "form35 =
     \<lparr>invoiceId = ''inv-2'', amount = 35, paymentDate = ''1970-01-02'',
      paymentMethod = check, payment_notes = None\<rparr>"

definition userSession :: Session where
  "userSession = \<lparr>accessToken = Some ''ya29.token'', session_error = None\<rparr>"

definition signedIn :: "PaymentFormData \<Rightarrow> PaymentFormData request" where
  "signedIn b = \<lparr>getServerSession = Inr (Some userSession), json = Inr b\<rparr>"

definition anonymous :: "PaymentFormData request" where
  "anonymous = \<lparr>getServerSession = Inr None, json = Inr form35\<rparr>"

section \<open>Invoices (src/types/index.ts)\<close>

record LineItem =
  item_id :: string
  description :: string
  quantity :: rat
  rate :: rat
  item_amount :: rat

datatype Frequency = weekly | monthly | quarterly | yearly

record RecurringSchedule =
  frequency :: Frequency
  interval :: nat
  startDate :: date
  endDate :: "date option"
  nextInvoiceDate :: date
  isActive :: bool

text \<open>
  The interface \<open>Invoice\<close>, its five derived monetary fields first. The fields \<open>id\<close>,
  \<open>notes\<close> and \<open>createdAt\<close> carry a prefix here, as \<open>id\<close> and \<open>amount\<close> of a line item do.
\<close>

record Totals =
  subtotal :: rat
  taxAmount :: rat
  total :: rat
  paidAmount :: rat
  balance :: rat

record Invoice = Totals +
  invoice_id :: string
  invoiceNumber :: string
  clientId :: string
  templateId :: "string option"
  status :: InvoiceStatus
  issueDate :: date
  dueDate :: date
  lineItems :: "LineItem list"
  taxRate :: rat
  invoice_notes :: "string option"
  isRecurring :: bool
  recurringSchedule :: "RecurringSchedule option"
  sentDate :: "date option"
  invoice_createdAt :: date
  updatedAt :: date

section \<open>The status change of the invoices page (src/unnamed/part\_001)\<close>

text \<open>
  The body of the PUT request: the fields of the invoice (\<open>...invoice\<close>) with
  \<open>status\<close> and \<open>sentDate\<close> overwritten. \<open>new Date().toISOString()\<close> is the text of
  the current instant \<open>now\<close>; a \<open>Date\<close> object is truthy, so \<open>!invoice.sentDate\<close> holds
  exactly when the field is undefined; \<open>invoice.sentDate?.toISOString()\<close> is undefined
  for an undefined field and throws on an Invalid Date.
\<close>

record StatusChangeBody =
  spread :: Invoice
  body_status :: InvoiceStatus
  body_sentDate :: "iso option"

definition statusChangeBody :: "Invoice \<Rightarrow> InvoiceStatus \<Rightarrow> int \<Rightarrow> thrown + StatusChangeBody" where
  "statusChangeBody invoice newStatus now =
     (if newStatus = sent \<and> sentDate invoice = None
      then Inr \<lparr>spread = invoice, body_status = newStatus, body_sentDate = Some (ISO now)\<rparr>
      else
        (case sentDate invoice of
           None \<Rightarrow> Inr \<lparr>spread = invoice, body_status = newStatus, body_sentDate = None\<rparr>
         | Some d \<Rightarrow>
             (case toISOString d of
                Inl e \<Rightarrow> Inl e
              | Inr s \<Rightarrow>
                  Inr \<lparr>spread = invoice, body_status = newStatus, body_sentDate = Some s\<rparr>)))"

datatype 'a ApiResponse = ApiSuccess 'a | ApiError string string

text \<open>
  The state of the page that the handler touches, and the requests it has sent.
  \<open>fetch\<close> stands for the request and the reading of its JSON answer: it throws, or
  gives the server's \<open>ApiResponse\<close>, whose invoice is taken with its dates already
  turned into \<open>Date\<close> objects.
\<close>

record page =
  invoices :: "Invoice list"
  error :: "string option"
  success :: "string option"
  requests :: "(string \<times> StatusChangeBody) list"

fun statusName :: "InvoiceStatus \<Rightarrow> string" where
  "statusName draft = ''draft''"
| "statusName sent = ''sent''"
| "statusName paid = ''paid''"
| "statusName overdue = ''overdue''"
| "statusName cancelled = ''cancelled''"

definition handleStatusChange ::
  "(string \<Rightarrow> StatusChangeBody \<Rightarrow> thrown + Invoice ApiResponse) \<Rightarrow> int \<Rightarrow>
   page \<Rightarrow> Invoice \<Rightarrow> InvoiceStatus \<Rightarrow> page" where
  "handleStatusChange fetch now pg invoice newStatus =
     (case statusChangeBody invoice newStatus now of
        Inl e \<Rightarrow> pg\<lparr>error := Some ''Failed to update invoice status. Please try again.''\<rparr>
      | Inr body \<Rightarrow>
          (let pg1 = pg\<lparr>requests := requests pg @ [(invoice_id invoice, body)]\<rparr> in
           case fetch (invoice_id invoice) body of
             Inl e \<Rightarrow> pg1\<lparr>error := Some ''Failed to update invoice status. Please try again.''\<rparr>
           | Inr (ApiSuccess d) \<Rightarrow>
               pg1\<lparr>invoices :=
                     map (\<lambda>i. if invoice_id i = invoice_id invoice then d else i) (invoices pg1),
                   success := Some (''Invoice status updated to '' @ statusName newStatus)\<rparr>
           | Inr (ApiError code message) \<Rightarrow> pg1\<lparr>error := Some message\<rparr>))"

text \<open>
  An invoice of two items (2 at 50, 1 at 25) taxed at 8 percent and due thirty days
  after the epoch, the page that shows it, and a server that stores what it is sent.
\<close>

definition inv0 :: Invoice where
  "inv0 =
     \<lparr>subtotal = 125, taxAmount = 10, total = 135, paidAmount = 0, balance = 135,
      invoice_id = ''inv-1'', invoiceNumber = ''INV-0001'', clientId = ''client-1'',
      templateId = None, status = draft, issueDate = Date 0, dueDate = Date 2592000000,
      lineItems =
        [\<lparr>item_id = ''li-1'', description = ''Design'', quantity = 2, rate = 50,
          item_amount = 100\<rparr>,
         \<lparr>item_id = ''li-2'', description = ''Hosting'', quantity = 1, rate = 25,
          item_amount = 25\<rparr>],
      taxRate = 8 / 100, invoice_notes = None, isRecurring = False, recurringSchedule = None,
      sentDate = None, invoice_createdAt = Date 0, updatedAt = Date 0\<rparr>"

definition page0 :: page where
  "page0 = \<lparr>invoices = [inv0], error = None, success = None, requests = []\<rparr>"

text \<open>\<open>new Date(s)\<close> of an ISO text is the instant the text denotes.\<close>

fun parseISO :: "iso \<Rightarrow> date" where
  "parseISO (ISO t) = Date t"

definition echoServer :: "string \<Rightarrow> StatusChangeBody \<Rightarrow> thrown + Invoice ApiResponse" where
  "echoServer i b =
     Inr (ApiSuccess ((spread b)\<lparr>status := body_status b,
                                 sentDate := map_option parseISO (body_sentDate b)\<rparr>))"

text \<open>The invoice \<open>inv0\<close> already sent at instant 1000, and the page that shows it.\<close>

definition invSent :: Invoice where
  "invSent = inv0\<lparr>status := sent, sentDate := Some (Date 1000)\<rparr>"

definition pageSent :: page where
  "pageSent = \<lparr>invoices = [invSent], error = None, success = None, requests = []\<rparr>"

section \<open>Invoice computation (spec, sections 3, 4.1 and 8)\<close>

text \<open>
  Modelled from the spec: the invoice computation engine is not part of the sources.
  Amounts are exact (the spec asks for fixed-point arithmetic). Rounding to currency
  precision is to two decimal places, a half going up (banker's rounding is avoided).
\<close>

definition round2 :: "rat \<Rightarrow> rat" where
  "round2 x = of_int \<lfloor>x * 100 + 1 / 2\<rfloor> / 100"

text \<open>Modelled from the spec: the sum of quantity times rate over the line items.\<close>

definition lineSum :: "LineItem list \<Rightarrow> rat" where
  "lineSum L = sum_list (map (\<lambda>i. quantity i * rate i) L)"

text \<open>
  Modelled from the spec: the output of the engine for the line items \<open>L\<close>, the tax rate
  \<open>t\<close> (a fraction) and the payment amounts \<open>P\<close>. The subtotal is the sum of quantity
  times rate over the items, as the invariant of section 3 and the property of section 8
  state it; the tax amount is the subtotal times the rate, rounded; the total is their
  sum; the paid amount is the sum of the payments; the balance is the total less the
  paid amount, and is not clamped.
\<close>

definition computeTotals :: "LineItem list \<Rightarrow> rat \<Rightarrow> rat list \<Rightarrow> Totals" where
  "computeTotals L t P =
     (let sub = lineSum L;
          tax = round2 (sub * t);
          tot = sub + tax;
          pd = sum_list P
      in \<lparr>subtotal = sub, taxAmount = tax, total = tot, paidAmount = pd, balance = tot - pd\<rparr>)"

section \<open>Payment application (spec, sections 4.2 and 4.4)\<close>

text \<open>Modelled from the spec: the failure kinds of section 7.\<close>

datatype DomainError = ValidationError | NotFoundError | ReconciliationError | StorageError

text \<open>
  Modelled from the spec: payment application is not part of the sources. It works on
  an invoice together with the payments that reference it; \<open>autoPaid\<close> records that
  the invoice reached \<open>paid\<close> through a payment application and not through a manual
  status update, which \<open>removePayment\<close> asks about.
\<close>

record Account =
  invoice :: Invoice
  payments :: "Payment list"
  autoPaid :: bool

text \<open>
  Modelled from the spec: the recomputation of the paid amount and the balance, afresh
  from the full set of payments (section 5): the paid amount is the sum of the payment
  amounts and the balance is the total less the paid amount.
\<close>

definition recompute :: "Invoice \<Rightarrow> Payment list \<Rightarrow> Invoice" where
  "recompute iv ps =
     iv\<lparr>paidAmount := sum_list (map amount ps),
         balance := total iv - sum_list (map amount ps)\<rparr>"

text \<open>
  Modelled from the spec: \<open>applyPayment\<close> validates that the amount is positive and
  that the payment references this invoice, appends the payment and recomputes; when
  the balance is at most 0 the invoice becomes \<open>paid\<close>. \<open>cancelled\<close> is terminal
  (section 4.2): a payment applied to a cancelled invoice recomputes the balance and
  does not reopen it.
\<close>

definition applyPayment :: "Account \<Rightarrow> Payment \<Rightarrow> DomainError + Account" where
  "applyPayment a p =
     (if amount p \<le> 0 \<or> invoiceId p \<noteq> invoice_id (invoice a) then Inl ValidationError
      else
        (let ps = payments a @ [p];
             inv1 = recompute (invoice a) ps
         in if status inv1 = cancelled \<or> status inv1 = paid
            then Inr (a\<lparr>invoice := inv1, payments := ps\<rparr>)
            else if balance inv1 \<le> 0
            then Inr \<lparr>invoice = inv1\<lparr>status := paid\<rparr>, payments = ps, autoPaid = True\<rparr>
            else Inr (a\<lparr>invoice := inv1, payments := ps\<rparr>)))"

text \<open>Modelled from the spec: a set of payments applied one after the other.\<close>

fun applyPayments :: "Account \<Rightarrow> Payment list \<Rightarrow> DomainError + Account" where
  "applyPayments a [] = Inr a"
| "applyPayments a (p # ps) =
     (case applyPayment a p of Inl e \<Rightarrow> Inl e | Inr a1 \<Rightarrow> applyPayments a1 ps)"

text \<open>
  Modelled from the spec: \<open>removePayment\<close> removes the payment of the given id (an id
  that no payment of the invoice has is a \<open>NotFoundError\<close>) and recomputes; when the
  invoice had been transitioned to \<open>paid\<close> by a payment application and the balance is
  now above 0, it reverts to \<open>sent\<close>. A cancelled invoice is never reverted.
\<close>

definition removePayment :: "Account \<Rightarrow> string \<Rightarrow> DomainError + Account" where
  "removePayment a pid =
     (if pid \<notin> set (map payment_id (payments a)) then Inl NotFoundError
      else
        (let ps = filter (\<lambda>p. payment_id p \<noteq> pid) (payments a);
             inv1 = recompute (invoice a) ps
         in if status inv1 = paid \<and> autoPaid a \<and> 0 < balance inv1
            then Inr \<lparr>invoice = inv1\<lparr>status := sent\<rparr>, payments = ps, autoPaid = False\<rparr>
            else Inr (a\<lparr>invoice := inv1, payments := ps\<rparr>)))"

section \<open>Read-time status (spec, section 4.2)\<close>

text \<open>
  Modelled from the spec: dates are compared as instants; an Invalid Date is neither
  before nor after any date.
\<close>

fun after :: "date \<Rightarrow> date \<Rightarrow> bool" where
  "after (Date a) (Date b) = (b < a)"
| "after a b = False"

text \<open>
  Modelled from the spec: the status reported when an invoice is read is not part of
  the sources. \<open>overdue\<close> is derived at read time (the policy the spec recommends):
  it applies when the current date is after the due date, the balance is above 0 and
  the stored status is neither \<open>cancelled\<close> nor \<open>paid\<close>. A stored \<open>overdue\<close> whose
  condition no longer holds goes back to \<open>sent\<close>.
\<close>

definition readStatus :: "date \<Rightarrow> Invoice \<Rightarrow> InvoiceStatus" where
  "readStatus now iv =
     (if after now (dueDate iv) \<and> 0 < balance iv
         \<and> status iv \<noteq> cancelled \<and> status iv \<noteq> paid
      then overdue
      else if status iv = overdue then sent
      else status iv)"

text \<open>
  The invoice \<open>inv0\<close> sent and without payments, the same invoice cancelled, and
  a payment of a given id and amount that references it.
\<close>

definition acct0 :: Account where
  "acct0 = \<lparr>invoice = inv0\<lparr>status := sent, sentDate := Some (Date 1000)\<rparr>,
            payments = [], autoPaid = False\<rparr>"

definition acctCancelled :: Account where
  "acctCancelled = \<lparr>invoice = inv0\<lparr>status := cancelled\<rparr>, payments = [], autoPaid = False\<rparr>"

definition payOf :: "string \<Rightarrow> rat \<Rightarrow> Payment" where
  "payOf pid x =
     \<lparr>invoiceId = ''inv-1'', amount = x, paymentDate = Date 0, paymentMethod = bank_transfer,
      payment_notes = None, payment_id = pid, createdAt = Date 0\<rparr>"

text \<open>
  The same invoice after a payment of 100, and after a further payment of 35 has
  paid it.
\<close>

definition acctPaid :: Account where
  "acctPaid =
     \<lparr>invoice = inv0\<lparr>status := paid, sentDate := Some (Date 1000), paidAmount := 135,
                      balance := 0\<rparr>,
      payments = [payOf ''pay-a'' 100, payOf ''pay-b'' 35], autoPaid = True\<rparr>"

definition acct100 :: Account where
  "acct100 =
     \<lparr>invoice = inv0\<lparr>status := sent, sentDate := Some (Date 1000), paidAmount := 100,
                      balance := 35\<rparr>,
      payments = [payOf ''pay-a'' 100], autoPaid = False\<rparr>"

section \<open>Verified properties\<close>

subsection \<open>C9: authentication comes first\<close>

text \<open>
  C9. Each of the three handlers of a payment id (GET, PUT, DELETE) checks the session
  before anything else: when the session has no access token, the handler answers
  UNAUTHORIZED (401), whatever the service, the id and the body are, it makes no call
  on the service and the store is the one it started with.
\<close>

theorem unauthenticated_request_rejected:
  assumes "getServerSession req = Inr session" and "lacksAccessToken session"
  shows "GET env req pid st =
           \<lparr>response = ErrorResponse ''UNAUTHORIZED'' ''Authentication required'' 401 NoDetails,
            store = st, calls = []\<rparr>
       \<and> PUT env req pid st =
           \<lparr>response = ErrorResponse ''UNAUTHORIZED'' ''Authentication required'' 401 NoDetails,
            store = st, calls = []\<rparr>
       \<and> DELETE env req pid st =
           \<lparr>response = ErrorResponse ''UNAUTHORIZED'' ''Authentication required'' 401 NoDetails,
            store = st, calls = []\<rparr>"
  using assms by (simp add: GET_def PUT_def DELETE_def unauthorized_def)

text \<open>A request without a session, on the store that holds the payment it names.\<close>

theorem unauthenticated_request_rejected_witness:
  "getServerSession anonymous = Inr None \<and> lacksAccessToken None
   \<and> GET memSheets anonymous ''pay-'' mem1 =
       \<lparr>response = ErrorResponse ''UNAUTHORIZED'' ''Authentication required'' 401 NoDetails,
        store = mem1, calls = []\<rparr>
   \<and> PUT memSheets anonymous ''pay-'' mem1 =
       \<lparr>response = ErrorResponse ''UNAUTHORIZED'' ''Authentication required'' 401 NoDetails,
        store = mem1, calls = []\<rparr>
   \<and> DELETE memSheets anonymous ''pay-'' mem1 =
       \<lparr>response = ErrorResponse ''UNAUTHORIZED'' ''Authentication required'' 401 NoDetails,
        store = mem1, calls = []\<rparr>"
proof -
  have s: "getServerSession anonymous = Inr None"
    by (simp add: anonymous_def)
  have l: "lacksAccessToken None"
    by simp
  from unauthenticated_request_rejected [OF s l, of memSheets "''pay-''" mem1] s l
  show ?thesis by simp
qed

subsection \<open>C10: the update handler writes nothing before its checks pass\<close>

text \<open>
  C10. PUT deletes the old payment only after the body has passed the schema and the
  payment has been found. For a request that has passed the handler's earlier guards
  (a session with a token, an id, a body that is JSON), a body the schema rejects is
  answered VALIDATION\_ERROR (400) with no call on the service, and an id the service
  does not know is answered NOT\_FOUND (404) after the one read. For every request
  at all whose body the schema rejects or whose id the service does not know, the store
  is unchanged, no delete and no create was called, and the answer is an error.
\<close>

theorem PUT_mutates_nothing_before_checks:
  "(getServerSession req = Inr session \<and> \<not> lacksAccessToken session \<and> pid \<noteq> []
      \<and> json req = Inr body \<and> safeParse env body = Inl issues
    \<longrightarrow> PUT env req pid st =
          \<lparr>response =
             ErrorResponse ''VALIDATION_ERROR'' ''Invalid payment data'' 400 (Issues issues),
           store = st, calls = []\<rparr>)
   \<and> (getServerSession req = Inr session \<and> \<not> lacksAccessToken session \<and> pid \<noteq> []
      \<and> json req = Inr body \<and> safeParse env body = Inr d
      \<and> getAuthenticatedService env st = Inr u \<and> getPayment env pid st = Inr None
    \<longrightarrow> PUT env req pid st =
          \<lparr>response = ErrorResponse ''NOT_FOUND'' ''Payment not found'' 404 NoDetails,
           store = st, calls = [GetAuthenticatedService, GetPayment pid]\<rparr>)
   \<and> ((json req = Inr body \<and> safeParse env body = Inl issues) \<or> getPayment env pid st = Inr None
    \<longrightarrow> store (PUT env req pid st) = st
        \<and> filter isWrite (calls (PUT env req pid st)) = []
        \<and> isError (response (PUT env req pid st)))"
  by (auto simp add: PUT_def unauthorized_def idRequired_def notFound_def caught_def
      split: sum.splits option.splits prod.splits)

text \<open>
  A body with amount 0, the id of a payment that does not exist, and an unauthenticated
  request for that id.
\<close>

theorem PUT_mutates_nothing_before_checks_witness:
  "PUT memSheets (signedIn (form35\<lparr>amount := 0\<rparr>)) ''pay-'' mem1 =
     \<lparr>response = ErrorResponse ''VALIDATION_ERROR'' ''Invalid payment data'' 400 (Issues [''amount'']),
      store = mem1, calls = []\<rparr>
   \<and> PUT memSheets (signedIn form35) ''pay-iii'' mem1 =
     \<lparr>response = ErrorResponse ''NOT_FOUND'' ''Payment not found'' 404 NoDetails,
      store = mem1, calls = [GetAuthenticatedService, GetPayment ''pay-iii'']\<rparr>
   \<and> store (PUT memSheets anonymous ''pay-iii'' mem1) = mem1
   \<and> filter isWrite (calls (PUT memSheets anonymous ''pay-iii'' mem1)) = []
   \<and> isError (response (PUT memSheets anonymous ''pay-iii'' mem1))"
proof -
  have a: "getServerSession (signedIn (form35\<lparr>amount := 0\<rparr>)) = Inr (Some userSession)
      \<and> \<not> lacksAccessToken (Some userSession) \<and> ''pay-'' \<noteq> []
      \<and> json (signedIn (form35\<lparr>amount := 0\<rparr>)) = Inr (form35\<lparr>amount := 0\<rparr>)
      \<and> safeParse memSheets (form35\<lparr>amount := 0\<rparr>) = Inl [''amount'']"
    by (simp add: signedIn_def userSession_def memSheets_def memSafeParse_def form35_def)
  have b: "getServerSession (signedIn form35) = Inr (Some userSession)
      \<and> \<not> lacksAccessToken (Some userSession) \<and> ''pay-iii'' \<noteq> []
      \<and> json (signedIn form35) = Inr form35 \<and> safeParse memSheets form35 = Inr form35
      \<and> getAuthenticatedService memSheets mem1 = Inr () \<and> getPayment memSheets ''pay-iii'' mem1 = Inr None"
    by (simp add: signedIn_def userSession_def memSheets_def memSafeParse_def form35_def
        memGetPayment_def mem1_def pay0_def)
  have c: "getPayment memSheets ''pay-iii'' mem1 = Inr None"
    using b by simp
  note t = PUT_mutates_nothing_before_checks
  from t [of "signedIn (form35\<lparr>amount := 0\<rparr>)" "Some userSession"
        "''pay-''" "form35\<lparr>amount := 0\<rparr>" memSheets "[''amount'']" mem1] a
  have 1: "PUT memSheets (signedIn (form35\<lparr>amount := 0\<rparr>)) ''pay-'' mem1 =
     \<lparr>response = ErrorResponse ''VALIDATION_ERROR'' ''Invalid payment data'' 400 (Issues [''amount'']),
      store = mem1, calls = []\<rparr>"
    by blast
  from t [of "signedIn form35" "Some userSession"
        "''pay-iii''" form35 memSheets _ mem1 form35 "()"] b
  have 2: "PUT memSheets (signedIn form35) ''pay-iii'' mem1 =
     \<lparr>response = ErrorResponse ''NOT_FOUND'' ''Payment not found'' 404 NoDetails,
      store = mem1, calls = [GetAuthenticatedService, GetPayment ''pay-iii'']\<rparr>"
    by blast
  from t [of anonymous _ "''pay-iii''" _ memSheets _ mem1] c
  have 3: "store (PUT memSheets anonymous ''pay-iii'' mem1) = mem1
   \<and> filter isWrite (calls (PUT memSheets anonymous ''pay-iii'' mem1)) = []
   \<and> isError (response (PUT memSheets anonymous ''pay-iii'' mem1))"
    by blast
  from 1 2 3 show ?thesis by simp
qed

subsection \<open>C3: an update is a delete followed by a create\<close>

text \<open>
  C3, as the handler has it. PUT on a payment id deletes the old payment and then
  creates the new one from the body. When the delete has succeeded and the create
  throws, the handler's one \<open>catch\<close> block answers UPDATE\_ERROR (500) with the
  message of the thrown error, as it does for a throw of any other step; the store
  is left as the failed create left it, so the old payment stays deleted. The handler
  has no reconciliation error and no compensating re-create.
\<close>

theorem PUT_delete_then_create:
  assumes "getServerSession req = Inr session" and "\<not> lacksAccessToken session"
    and "pid \<noteq> []" and "json req = Inr body" and "safeParse env body = Inr d"
    and "getAuthenticatedService env st = Inr u"
    and "getPayment env pid st = Inr (Some existingPayment)"
    and "deletePayment env pid st = (Inr deleted, st1)"
  shows "(createPayment env (paymentData env d) st1 = (Inr updatedPayment, st2)
          \<longrightarrow> PUT env req pid st =
                \<lparr>response = SuccessPayment updatedPayment, store = st2,
                 calls = [GetAuthenticatedService, GetPayment pid, DeletePayment pid,
                          CreatePayment (paymentData env d)]\<rparr>)
       \<and> (createPayment env (paymentData env d) st1 = (Inl e, st2)
          \<longrightarrow> PUT env req pid st =
                \<lparr>response =
                   ErrorResponse ''UPDATE_ERROR'' (messageOf e ''Failed to update payment'') 500
                     (Caught e),
                 store = st2,
                 calls = [GetAuthenticatedService, GetPayment pid, DeletePayment pid,
                          CreatePayment (paymentData env d)]\<rparr>)"
  using assms by (simp add: PUT_def caught_def)

text \<open>
  The update of the payment \<open>pay-\<close> on the in-memory service, and on the service
  whose create is refused.
\<close>

theorem PUT_delete_then_create_witness:
  "PUT memSheets (signedIn form35) ''pay-'' mem1 =
     \<lparr>response =
        SuccessPayment
          \<lparr>invoiceId = ''inv-2'', amount = 35, paymentDate = Date 86400000,
           paymentMethod = check, payment_notes = None, payment_id = ''pay-i'',
           createdAt = Date 172800000\<rparr>,
      store =
        \<lparr>rows =
           [\<lparr>invoiceId = ''inv-2'', amount = 35, paymentDate = Date 86400000,
             paymentMethod = check, payment_notes = None, payment_id = ''pay-i'',
             createdAt = Date 172800000\<rparr>],
         issued = 2, today = Date 172800000\<rparr>,
      calls =
        [GetAuthenticatedService, GetPayment ''pay-'', DeletePayment ''pay-'',
         CreatePayment (paymentData memSheets form35)]\<rparr>
   \<and> PUT createFails (signedIn form35) ''pay-'' mem1 =
     \<lparr>response = ErrorResponse ''UPDATE_ERROR'' ''Quota exceeded'' 500 (Caught quota),
      store = \<lparr>rows = [], issued = 1, today = Date 172800000\<rparr>,
      calls =
        [GetAuthenticatedService, GetPayment ''pay-'', DeletePayment ''pay-'',
         CreatePayment (paymentData createFails form35)]\<rparr>"
proof -
  let ?s = "Some userSession"
  let ?p = "\<lparr>invoiceId = ''inv-2'', amount = 35, paymentDate = Date 86400000,
           paymentMethod = check, payment_notes = None, payment_id = ''pay-i'',
           createdAt = Date 172800000\<rparr>"
  have r: "getServerSession (signedIn form35) = Inr ?s" "\<not> lacksAccessToken ?s"
    "''pay-'' \<noteq> []" "json (signedIn form35) = Inr form35"
    by (simp_all add: signedIn_def userSession_def)
  have a: "safeParse memSheets form35 = Inr form35"
    "getAuthenticatedService memSheets mem1 = Inr ()"
    "getPayment memSheets ''pay-'' mem1 = Inr (Some pay0)"
    "deletePayment memSheets ''pay-'' mem1 = (Inr True, mem1\<lparr>rows := []\<rparr>)"
    by (simp_all add: memSheets_def memSafeParse_def form35_def memGetPayment_def
        memDeletePayment_def mem1_def pay0_def)
  have b: "safeParse createFails form35 = Inr form35"
    "getAuthenticatedService createFails mem1 = Inr ()"
    "getPayment createFails ''pay-'' mem1 = Inr (Some pay0)"
    "deletePayment createFails ''pay-'' mem1 = (Inr True, mem1\<lparr>rows := []\<rparr>)"
    using a by (simp_all add: createFails_def)
  have c: "createPayment memSheets (paymentData memSheets form35) (mem1\<lparr>rows := []\<rparr>) =
      (Inr ?p, \<lparr>rows = [?p], issued = 2, today = Date 172800000\<rparr>)"
    by (simp add: memSheets_def memCreatePayment_def paymentData_def form35_def memNewDate_def
        mem1_def Let_def)
  have d: "createPayment createFails (paymentData createFails form35) (mem1\<lparr>rows := []\<rparr>) =
      (Inl quota, \<lparr>rows = [], issued = 1, today = Date 172800000\<rparr>)"
    by (simp add: createFails_def mem1_def)
  from PUT_delete_then_create [OF r a, of ?p _ quota] c
  have 1: "PUT memSheets (signedIn form35) ''pay-'' mem1 =
      \<lparr>response = SuccessPayment ?p,
       store = \<lparr>rows = [?p], issued = 2, today = Date 172800000\<rparr>,
       calls = [GetAuthenticatedService, GetPayment ''pay-'', DeletePayment ''pay-'',
                CreatePayment (paymentData memSheets form35)]\<rparr>"
    by blast
  from PUT_delete_then_create [OF r b, of ?p _ quota] d
  have 2: "PUT createFails (signedIn form35) ''pay-'' mem1 =
     \<lparr>response = ErrorResponse ''UPDATE_ERROR'' (messageOf quota ''Failed to update payment'') 500 (Caught quota),
      store = \<lparr>rows = [], issued = 1, today = Date 172800000\<rparr>,
      calls =
        [GetAuthenticatedService, GetPayment ''pay-'', DeletePayment ''pay-'',
         CreatePayment (paymentData createFails form35)]\<rparr>"
    by blast
  from 1 2 show ?thesis by (simp add: quota_def)
qed

text \<open>
  C3 as stated fails: the answer to the update whose create was refused after the
  delete is the very answer to the update whose first read was refused. In the first
  run the payment is gone from the store, in the second the store is untouched, and
  the caller cannot tell the two apart.
\<close>

theorem create_failure_not_distinct:
  "response (PUT createFails (signedIn form35) ''pay-'' mem1) =
     ErrorResponse ''UPDATE_ERROR'' ''Quota exceeded'' 500 (Caught quota)
   \<and> response (PUT readFails (signedIn form35) ''pay-'' mem1) =
     response (PUT createFails (signedIn form35) ''pay-'' mem1)
   \<and> store (PUT readFails (signedIn form35) ''pay-'' mem1) = mem1
   \<and> rows (store (PUT createFails (signedIn form35) ''pay-'' mem1)) = []
   \<and> rows mem1 = [pay0]"
  by (simp add: PUT_def createFails_def readFails_def memSheets_def signedIn_def userSession_def form35_def
      memSafeParse_def memGetPayment_def memDeletePayment_def mem1_def pay0_def caught_def
      quota_def)

subsection \<open>C4: the invoice of an updated payment\<close>

text \<open>
  C4, as the handler has it. An update never rewrites a stored payment: a successful
  PUT makes one read, one delete and one create, and the payment it creates references
  the invoice that the request body names, whichever invoice the deleted payment
  referenced. The handler reads the old invoice id into \<open>oldInvoiceId\<close> and makes no
  use of it; the type \<open>UpdatePaymentData\<close>, which leaves \<open>invoiceId\<close> out, is not the
  type of what PUT accepts.
\<close>

theorem PUT_invoiceId_from_body:
  assumes "getServerSession req = Inr session" and "\<not> lacksAccessToken session"
    and "pid \<noteq> []" and "json req = Inr body" and "safeParse env body = Inr d"
    and "getAuthenticatedService env st = Inr u"
    and "getPayment env pid st = Inr (Some existingPayment)"
    and "deletePayment env pid st = (Inr deleted, st1)"
    and "createPayment env (paymentData env d) st1 = (Inr updatedPayment, st2)"
  shows "response (PUT env req pid st) = SuccessPayment updatedPayment
       \<and> calls (PUT env req pid st) =
           [GetAuthenticatedService, GetPayment pid, DeletePayment pid,
            CreatePayment (paymentData env d)]
       \<and> invoiceId (paymentData env d) = invoiceId d"
  using assms by (simp add: PUT_def paymentData_def)

text \<open>The update of the payment \<open>pay-\<close> of invoice \<open>inv-1\<close> with a body that names \<open>inv-2\<close>.\<close>

theorem PUT_invoiceId_from_body_witness:
  "invoiceId pay0 = ''inv-1'' \<and> invoiceId form35 = ''inv-2''
   \<and> calls (PUT memSheets (signedIn form35) ''pay-'' mem1) =
       [GetAuthenticatedService, GetPayment ''pay-'', DeletePayment ''pay-'',
        CreatePayment (paymentData memSheets form35)]
   \<and> invoiceId (paymentData memSheets form35) = ''inv-2''"
proof -
  let ?s = "Some userSession"
  let ?p = "\<lparr>invoiceId = ''inv-2'', amount = 35, paymentDate = Date 86400000,
           paymentMethod = check, payment_notes = None, payment_id = ''pay-i'',
           createdAt = Date 172800000\<rparr>"
  have r: "getServerSession (signedIn form35) = Inr ?s" "\<not> lacksAccessToken ?s"
    "''pay-'' \<noteq> []" "json (signedIn form35) = Inr form35"
    by (simp_all add: signedIn_def userSession_def)
  have a: "safeParse memSheets form35 = Inr form35"
    "getAuthenticatedService memSheets mem1 = Inr ()"
    "getPayment memSheets ''pay-'' mem1 = Inr (Some pay0)"
    "deletePayment memSheets ''pay-'' mem1 = (Inr True, mem1\<lparr>rows := []\<rparr>)"
    by (simp_all add: memSheets_def memSafeParse_def form35_def memGetPayment_def
        memDeletePayment_def mem1_def pay0_def)
  have c: "createPayment memSheets (paymentData memSheets form35) (mem1\<lparr>rows := []\<rparr>) =
      (Inr ?p, \<lparr>rows = [?p], issued = 2, today = Date 172800000\<rparr>)"
    by (simp add: memSheets_def memCreatePayment_def paymentData_def form35_def memNewDate_def
        mem1_def Let_def)
  have i: "invoiceId pay0 = ''inv-1''" "invoiceId form35 = ''inv-2''"
    by (simp_all add: pay0_def form35_def)
  from PUT_invoiceId_from_body [OF r a c] i show ?thesis
    by simp
qed

text \<open>
  C4 as stated fails: PUT on the payment \<open>pay-\<close> of invoice \<open>inv-1\<close>, with a valid
  body that names invoice \<open>inv-2\<close>, succeeds; the payment returned as the updated one,
  and the only payment left in the store, references \<open>inv-2\<close>.
\<close>

theorem PUT_changes_invoiceId:
  "getPayment memSheets ''pay-'' mem1 = Inr (Some pay0) \<and> invoiceId pay0 = ''inv-1''
   \<and> PUT memSheets (signedIn form35) ''pay-'' mem1 =
     \<lparr>response =
        SuccessPayment
          \<lparr>invoiceId = ''inv-2'', amount = 35, paymentDate = Date 86400000,
           paymentMethod = check, payment_notes = None, payment_id = ''pay-i'',
           createdAt = Date 172800000\<rparr>,
      store =
        \<lparr>rows =
           [\<lparr>invoiceId = ''inv-2'', amount = 35, paymentDate = Date 86400000,
             paymentMethod = check, payment_notes = None, payment_id = ''pay-i'',
             createdAt = Date 172800000\<rparr>],
         issued = 2, today = Date 172800000\<rparr>,
      calls =
        [GetAuthenticatedService, GetPayment ''pay-'', DeletePayment ''pay-'',
         CreatePayment
           \<lparr>invoiceId = ''inv-2'', amount = 35, paymentDate = Date 86400000,
            paymentMethod = check, payment_notes = None\<rparr>]\<rparr>"
  by (simp add: PUT_def memSheets_def signedIn_def userSession_def form35_def memSafeParse_def memGetPayment_def
      memDeletePayment_def memCreatePayment_def memNewDate_def paymentData_def mem1_def pay0_def
      Let_def)

subsection \<open>C5: the sent date is set once\<close>

text \<open>
  C5. A status change to \<open>sent\<close> asks for the current time as \<open>sentDate\<close> when the
  invoice has none, and an invoice that has a \<open>sentDate\<close> sends it unchanged with
  every status change; a change to another status of an invoice that has none sends
  none. The handler sends this one request and puts the invoice of the server's answer
  in the place of the invoice on the page: when the server answers a change to \<open>sent\<close>
  with the \<open>sentDate\<close> it was sent, the invoice shown has the current time as
  \<open>sentDate\<close> if it had none before, and the \<open>sentDate\<close> it had otherwise. When the
  request throws or the server refuses it, the invoices on the page stay as they were,
  and an invoice whose \<open>sentDate\<close> is an Invalid Date sends no request at all.
\<close>

theorem sentDate_set_once:
  "(sentDate iv = None
    \<longrightarrow> statusChangeBody iv sent now =
          Inr \<lparr>spread = iv, body_status = sent, body_sentDate = Some (ISO now)\<rparr>)
   \<and> (sentDate iv = Some (Date t)
    \<longrightarrow> statusChangeBody iv newStatus now =
          Inr \<lparr>spread = iv, body_status = newStatus, body_sentDate = Some (ISO t)\<rparr>)
   \<and> (sentDate iv = None \<and> newStatus \<noteq> sent
    \<longrightarrow> statusChangeBody iv newStatus now =
          Inr \<lparr>spread = iv, body_status = newStatus, body_sentDate = None\<rparr>)
   \<and> (sentDate iv = Some InvalidDate
    \<longrightarrow> handleStatusChange fetch now pg iv newStatus =
          pg\<lparr>error := Some ''Failed to update invoice status. Please try again.''\<rparr>)
   \<and> (statusChangeBody iv newStatus now = Inr b \<and> fetch (invoice_id iv) b = Inr (ApiSuccess d)
    \<longrightarrow> handleStatusChange fetch now pg iv newStatus =
          pg\<lparr>requests := requests pg @ [(invoice_id iv, b)],
             invoices := map (\<lambda>i. if invoice_id i = invoice_id iv then d else i) (invoices pg),
             success := Some (''Invoice status updated to '' @ statusName newStatus)\<rparr>)
   \<and> (statusChangeBody iv newStatus now = Inr b \<and> fetch (invoice_id iv) b = Inl e
    \<longrightarrow> handleStatusChange fetch now pg iv newStatus =
          pg\<lparr>requests := requests pg @ [(invoice_id iv, b)],
             error := Some ''Failed to update invoice status. Please try again.''\<rparr>)
   \<and> (statusChangeBody iv newStatus now = Inr b
      \<and> fetch (invoice_id iv) b = Inr (ApiError code message)
    \<longrightarrow> handleStatusChange fetch now pg iv newStatus =
          pg\<lparr>requests := requests pg @ [(invoice_id iv, b)], error := Some message\<rparr>)
   \<and> (statusChangeBody iv sent now = Inr b
      \<and> sentDate d = map_option parseISO (body_sentDate b)
    \<longrightarrow> sentDate d = (if sentDate iv = None then Some (Date now) else sentDate iv))"
proof -
  have last: "statusChangeBody iv sent now = Inr b
      \<and> sentDate d = map_option parseISO (body_sentDate b)
    \<longrightarrow> sentDate d = (if sentDate iv = None then Some (Date now) else sentDate iv)"
  proof (cases "sentDate iv")
    case None
    then show ?thesis
      by (auto simp add: statusChangeBody_def)
  next
    case (Some x)
    then show ?thesis
      by (cases x) (auto simp add: statusChangeBody_def)
  qed
  have rest: "(sentDate iv = None
    \<longrightarrow> statusChangeBody iv sent now =
          Inr \<lparr>spread = iv, body_status = sent, body_sentDate = Some (ISO now)\<rparr>)
   \<and> (sentDate iv = Some (Date t)
    \<longrightarrow> statusChangeBody iv newStatus now =
          Inr \<lparr>spread = iv, body_status = newStatus, body_sentDate = Some (ISO t)\<rparr>)
   \<and> (sentDate iv = None \<and> newStatus \<noteq> sent
    \<longrightarrow> statusChangeBody iv newStatus now =
          Inr \<lparr>spread = iv, body_status = newStatus, body_sentDate = None\<rparr>)
   \<and> (sentDate iv = Some InvalidDate
    \<longrightarrow> handleStatusChange fetch now pg iv newStatus =
          pg\<lparr>error := Some ''Failed to update invoice status. Please try again.''\<rparr>)
   \<and> (statusChangeBody iv newStatus now = Inr b \<and> fetch (invoice_id iv) b = Inr (ApiSuccess d)
    \<longrightarrow> handleStatusChange fetch now pg iv newStatus =
          pg\<lparr>requests := requests pg @ [(invoice_id iv, b)],
             invoices := map (\<lambda>i. if invoice_id i = invoice_id iv then d else i) (invoices pg),
             success := Some (''Invoice status updated to '' @ statusName newStatus)\<rparr>)
   \<and> (statusChangeBody iv newStatus now = Inr b \<and> fetch (invoice_id iv) b = Inl e
    \<longrightarrow> handleStatusChange fetch now pg iv newStatus =
          pg\<lparr>requests := requests pg @ [(invoice_id iv, b)],
             error := Some ''Failed to update invoice status. Please try again.''\<rparr>)
   \<and> (statusChangeBody iv newStatus now = Inr b
      \<and> fetch (invoice_id iv) b = Inr (ApiError code message)
    \<longrightarrow> handleStatusChange fetch now pg iv newStatus =
          pg\<lparr>requests := requests pg @ [(invoice_id iv, b)], error := Some message\<rparr>)"
    by (simp add: statusChangeBody_def handleStatusChange_def Let_def)
  from rest last show ?thesis
    by blast
qed

text \<open>
  The draft invoice marked sent at instant 5000, the invoice already sent at instant
  1000 marked sent again, and an invoice whose sent date is invalid, on a server that
  stores what it is sent.
\<close>

theorem sentDate_set_once_witness:
  "handleStatusChange echoServer 5000 page0 inv0 sent =
     page0\<lparr>requests :=
             [(''inv-1'',
               \<lparr>spread = inv0, body_status = sent, body_sentDate = Some (ISO 5000)\<rparr>)],
           invoices := [inv0\<lparr>status := sent, sentDate := Some (Date 5000)\<rparr>],
           success := Some ''Invoice status updated to sent''\<rparr>
   \<and> handleStatusChange echoServer 5000 pageSent invSent sent =
     pageSent\<lparr>requests :=
                [(''inv-1'',
                  \<lparr>spread = invSent, body_status = sent, body_sentDate = Some (ISO 1000)\<rparr>)],
              invoices := [invSent],
              success := Some ''Invoice status updated to sent''\<rparr>
   \<and> sentDate invSent = Some (Date 1000)
   \<and> handleStatusChange echoServer 5000 page0 (inv0\<lparr>sentDate := Some InvalidDate\<rparr>) sent =
     page0\<lparr>error := Some ''Failed to update invoice status. Please try again.''\<rparr>"
proof -
  let ?b0 = "\<lparr>spread = inv0, body_status = sent, body_sentDate = Some (ISO 5000)\<rparr>"
  let ?d0 = "inv0\<lparr>status := sent, sentDate := Some (Date 5000)\<rparr>"
  let ?b1 = "\<lparr>spread = invSent, body_status = sent, body_sentDate = Some (ISO 1000)\<rparr>"
  have s: "sentDate inv0 = None" "sentDate invSent = Some (Date 1000)"
    "sentDate (inv0\<lparr>sentDate := Some InvalidDate\<rparr>) = Some InvalidDate"
    "invoice_id inv0 = ''inv-1''" "invoice_id invSent = ''inv-1''"
    by (simp_all add: inv0_def invSent_def)
  have p: "invoices page0 = [inv0]" "requests page0 = []"
    "invoices pageSent = [invSent]" "requests pageSent = []"
    by (simp_all add: page0_def pageSent_def)
  have f: "echoServer ''inv-1'' ?b0 = Inr (ApiSuccess ?d0)"
    "echoServer ''inv-1'' ?b1 = Inr (ApiSuccess invSent)"
    by (simp_all add: echoServer_def invSent_def)
  note t = sentDate_set_once [where fetch = echoServer and now = 5000 and newStatus = sent]
  from t [where iv = inv0] s
  have b0: "statusChangeBody inv0 sent 5000 = Inr ?b0"
    by blast
  from t [where iv = invSent and t = 1000] s
  have b1: "statusChangeBody invSent sent 5000 = Inr ?b1"
    by blast
  from t [where iv = inv0 and b = ?b0 and d = ?d0 and pg = page0] b0 f s
  have 1: "handleStatusChange echoServer 5000 page0 inv0 sent =
     page0\<lparr>requests := requests page0 @ [(invoice_id inv0, ?b0)],
           invoices := map (\<lambda>i. if invoice_id i = invoice_id inv0 then ?d0 else i) (invoices page0),
           success := Some (''Invoice status updated to '' @ statusName sent)\<rparr>"
    by simp
  from t [where iv = invSent and b = ?b1 and d = invSent and pg = pageSent] b1 f s
  have 2: "handleStatusChange echoServer 5000 pageSent invSent sent =
     pageSent\<lparr>requests := requests pageSent @ [(invoice_id invSent, ?b1)],
           invoices :=
             map (\<lambda>i. if invoice_id i = invoice_id invSent then invSent else i) (invoices pageSent),
           success := Some (''Invoice status updated to '' @ statusName sent)\<rparr>"
    by simp
  from t [where iv = "inv0\<lparr>sentDate := Some InvalidDate\<rparr>" and pg = page0] s
  have 3: "handleStatusChange echoServer 5000 page0 (inv0\<lparr>sentDate := Some InvalidDate\<rparr>) sent =
     page0\<lparr>error := Some ''Failed to update invoice status. Please try again.''\<rparr>"
    by blast
  from 1 2 3 s p show ?thesis
    by simp
qed

subsection \<open>C1: the derived totals\<close>

text \<open>
  Rounding to two decimal places: the result is the whole number of cents nearest to
  the argument, a whole number of cents is left as it is.
\<close>

lemma round2_eq:
  assumes "of_int z \<le> x * 100 + 1 / 2" and "x * 100 + 1 / 2 < of_int z + 1"
  shows "round2 x = of_int z / 100"
proof -
  have "\<lfloor>x * 100 + 1 / 2\<rfloor> = z"
    using assms by (rule floor_unique)
  then show ?thesis
    by (simp add: round2_def)
qed

lemma round2_cents: "round2 (of_int k / 100) = of_int k / 100"
  by (rule round2_eq) simp_all

lemma round2_near: "x - 1 / 200 < round2 x \<and> round2 x \<le> x + 1 / 200"
proof -
  let ?y = "x * 100 + 1 / 2"
  have "of_int \<lfloor>?y\<rfloor> \<le> ?y" and "?y < of_int \<lfloor>?y\<rfloor> + 1"
    by linarith+
  then show ?thesis
    by (simp add: round2_def field_simps)
qed

text \<open>
  C1. For every sequence of line items \<open>L\<close> and tax rate \<open>t\<close>, the subtotal is the sum
  over the items of quantity times rate; the tax amount is the subtotal times \<open>t\<close>
  rounded to two decimal places, that is a whole number of cents at most half a cent
  away from the product; the total is the subtotal plus the tax amount. For the items
  2 at 50 and 1 at 25 and the rate 0.08 the subtotal is 125, the tax amount 10 and the
  total 135; without items the subtotal and the total are 0, and at rate 0 the tax
  amount is 0.
\<close>

theorem computeTotals_totals:
  "subtotal (computeTotals L t P) = (\<Sum>i\<leftarrow>L. quantity i * rate i)
   \<and> taxAmount (computeTotals L t P) = round2 (subtotal (computeTotals L t P) * t)
   \<and> taxAmount (computeTotals L t P) =
       of_int \<lfloor>taxAmount (computeTotals L t P) * 100\<rfloor> / 100
   \<and> subtotal (computeTotals L t P) * t - 1 / 200 < taxAmount (computeTotals L t P)
   \<and> taxAmount (computeTotals L t P) \<le> subtotal (computeTotals L t P) * t + 1 / 200
   \<and> total (computeTotals L t P) =
       subtotal (computeTotals L t P) + taxAmount (computeTotals L t P)
   \<and> (quantity a = 2 \<and> rate a = 50 \<and> quantity b = 1 \<and> rate b = 25
      \<longrightarrow> subtotal (computeTotals [a, b] (8 / 100) P) = 125
        \<and> taxAmount (computeTotals [a, b] (8 / 100) P) = 10
        \<and> total (computeTotals [a, b] (8 / 100) P) = 135)
   \<and> subtotal (computeTotals [] t P) = 0
   \<and> total (computeTotals [] t P) = 0
   \<and> taxAmount (computeTotals L 0 P) = 0"
proof -
  have r0: "round2 0 = 0"
    using round2_cents [of 0] by simp
  have r10: "round2 10 = 10"
    using round2_cents [of 1000] by simp
  have sub: "subtotal (computeTotals L t P) = (\<Sum>i\<leftarrow>L. quantity i * rate i)"
    by (simp add: computeTotals_def lineSum_def Let_def)
  have tax: "taxAmount (computeTotals L t P) = round2 (subtotal (computeTotals L t P) * t)"
    by (simp add: computeTotals_def Let_def)
  have cents: "taxAmount (computeTotals L t P) =
       of_int \<lfloor>taxAmount (computeTotals L t P) * 100\<rfloor> / 100"
    unfolding tax by (simp add: round2_def)
  have near: "subtotal (computeTotals L t P) * t - 1 / 200 < taxAmount (computeTotals L t P)"
    "taxAmount (computeTotals L t P) \<le> subtotal (computeTotals L t P) * t + 1 / 200"
    unfolding tax using round2_near [of "subtotal (computeTotals L t P) * t"] by simp_all
  have tot: "total (computeTotals L t P) =
      subtotal (computeTotals L t P) + taxAmount (computeTotals L t P)"
    by (simp add: computeTotals_def Let_def)
  have scen: "quantity a = 2 \<and> rate a = 50 \<and> quantity b = 1 \<and> rate b = 25
      \<longrightarrow> subtotal (computeTotals [a, b] (8 / 100) P) = 125
        \<and> taxAmount (computeTotals [a, b] (8 / 100) P) = 10
        \<and> total (computeTotals [a, b] (8 / 100) P) = 135"
    by (simp add: computeTotals_def lineSum_def Let_def r10)
  have empty: "subtotal (computeTotals [] t P) = 0" "total (computeTotals [] t P) = 0"
    by (simp_all add: computeTotals_def lineSum_def Let_def r0)
  have zero: "taxAmount (computeTotals L 0 P) = 0"
    by (simp add: computeTotals_def Let_def r0)
  from sub tax cents near tot scen empty zero show ?thesis
    by blast
qed

text \<open>The line items and the tax rate of the invoice \<open>inv0\<close>.\<close>

theorem computeTotals_totals_witness:
  "quantity (lineItems inv0 ! 0) = 2 \<and> rate (lineItems inv0 ! 0) = 50
   \<and> quantity (lineItems inv0 ! 1) = 1 \<and> rate (lineItems inv0 ! 1) = 25
   \<and> subtotal (computeTotals (lineItems inv0) (taxRate inv0) []) = 125
   \<and> taxAmount (computeTotals (lineItems inv0) (taxRate inv0) []) = 10
   \<and> total (computeTotals (lineItems inv0) (taxRate inv0) []) = 135"
proof -
  have i: "lineItems inv0 = [lineItems inv0 ! 0, lineItems inv0 ! 1]" "taxRate inv0 = 8 / 100"
    "quantity (lineItems inv0 ! 0) = 2 \<and> rate (lineItems inv0 ! 0) = 50
     \<and> quantity (lineItems inv0 ! 1) = 1 \<and> rate (lineItems inv0 ! 1) = 25"
    by (simp_all add: inv0_def)
  from computeTotals_totals
    [where a = "lineItems inv0 ! 0" and b = "lineItems inv0 ! 1" and P = "[]"] i
  have "subtotal (computeTotals (lineItems inv0) (taxRate inv0) []) = 125
   \<and> taxAmount (computeTotals (lineItems inv0) (taxRate inv0) []) = 10
   \<and> total (computeTotals (lineItems inv0) (taxRate inv0) []) = 135"
    by metis
  with i(3) show ?thesis by simp
qed

subsection \<open>C2: the balance after payments\<close>

text \<open>
  What one successful application establishes, and what a run of them does.
\<close>

lemma applyPayment_Inr:
  assumes "applyPayment a p = Inr a1"
  shows "0 < amount p" and "invoiceId p = invoice_id (invoice a)"
    and "payments a1 = payments a @ [p]"
    and "total (invoice a1) = total (invoice a)"
    and "invoice_id (invoice a1) = invoice_id (invoice a)"
    and "paidAmount (invoice a1) = sum_list (map amount (payments a1))"
    and "balance (invoice a1) = total (invoice a) - sum_list (map amount (payments a1))"
  using assms
  by (auto simp add: applyPayment_def recompute_def Let_def split: if_splits)

lemma applyPayment_status:
  assumes "applyPayment a p = Inr a1"
  shows "status (invoice a) = cancelled \<longrightarrow> status (invoice a1) = cancelled"
    and "status (invoice a) \<noteq> cancelled \<and> balance (invoice a1) \<le> 0
         \<longrightarrow> status (invoice a1) = paid"
    and "status (invoice a) \<noteq> cancelled \<longrightarrow> status (invoice a1) \<noteq> cancelled"
  using assms
  by (auto simp add: applyPayment_def recompute_def Let_def split: if_splits)

lemma applyPayments_snoc:
  "applyPayments a (ps @ [p]) =
     (case applyPayments a ps of Inl e \<Rightarrow> Inl e | Inr a1 \<Rightarrow> applyPayment a1 p)"
  by (induction ps arbitrary: a) (auto split: sum.splits)

lemma applyPayments_Inr:
  assumes "applyPayments a P = Inr a1"
  shows "payments a1 = payments a @ P \<and> total (invoice a1) = total (invoice a)
    \<and> (status (invoice a) = cancelled \<longrightarrow> status (invoice a1) = cancelled)
    \<and> (status (invoice a) \<noteq> cancelled \<longrightarrow> status (invoice a1) \<noteq> cancelled)
    \<and> (P \<noteq> [] \<longrightarrow>
         balance (invoice a1) = total (invoice a) - sum_list (map amount (payments a1)))
    \<and> (P \<noteq> [] \<and> status (invoice a) \<noteq> cancelled \<and> balance (invoice a1) \<le> 0
        \<longrightarrow> status (invoice a1) = paid)"
  using assms
proof (induction P arbitrary: a1 rule: rev_induct)
  case Nil
  then show ?case by simp
next
  case (snoc p P)
  from snoc.prems obtain a0 where a0: "applyPayments a P = Inr a0"
    and ap: "applyPayment a0 p = Inr a1"
    by (auto simp add: applyPayments_snoc split: sum.splits)
  note ih = snoc.IH [OF a0]
  from applyPayment_Inr [OF ap] applyPayment_status [OF ap] ih
  show ?case by auto
qed

text \<open>
  C2, as payment application has it. When the payments \<open>P\<close> have been applied to an
  invoice with total \<open>T\<close>, the recomputed balance is \<open>T\<close> less the sum of all the
  payments of the invoice: \<open>T\<close> less the sum of \<open>P\<close> for an invoice that had none
  before. It is not clamped. Whenever that sum is at least \<open>T\<close> and the invoice is not
  cancelled, its status is \<open>paid\<close>; a cancelled invoice stays \<open>cancelled\<close>.
\<close>

theorem applied_payments_balance:
  assumes "applyPayments a P = Inr a1" and "P \<noteq> []"
  shows "balance (invoice a1) =
           total (invoice a) - (sum_list (map amount (payments a)) + sum_list (map amount P))
    \<and> (payments a = [] \<longrightarrow> balance (invoice a1) = total (invoice a) - sum_list (map amount P))
    \<and> (status (invoice a) \<noteq> cancelled
        \<and> total (invoice a) \<le> sum_list (map amount (payments a)) + sum_list (map amount P)
        \<longrightarrow> status (invoice a1) = paid)
    \<and> (status (invoice a) = cancelled \<longrightarrow> status (invoice a1) = cancelled)"
  using applyPayments_Inr [OF assms(1)] assms(2) by auto

text \<open>
  Payments of 100 and 35 on the invoice of total 135 leave the balance 0; payments of
  100 and 50 leave it at -15. Both invoices are paid.
\<close>

theorem applied_payments_balance_witness:
  "applyPayments acct0 [payOf ''pay-a'' 100, payOf ''pay-b'' 35] = Inr acctPaid
   \<and> total (invoice acct0) = 135 \<and> status (invoice acct0) = sent
   \<and> balance (invoice acctPaid) = 0 \<and> status (invoice acctPaid) = paid
   \<and> applyPayments acct0 [payOf ''pay-a'' 100, payOf ''pay-b'' 50] =
       Inr (acctPaid\<lparr>invoice := (invoice acctPaid)\<lparr>paidAmount := 150, balance := - 15\<rparr>,
                     payments := [payOf ''pay-a'' 100, payOf ''pay-b'' 50]\<rparr>)"
proof -
  let ?over = "acctPaid\<lparr>invoice := (invoice acctPaid)\<lparr>paidAmount := 150, balance := - 15\<rparr>,
                     payments := [payOf ''pay-a'' 100, payOf ''pay-b'' 50]\<rparr>"
  have a1: "applyPayments acct0 [payOf ''pay-a'' 100, payOf ''pay-b'' 35] = Inr acctPaid"
    by (simp add: acct0_def acctPaid_def payOf_def inv0_def applyPayment_def recompute_def
        Let_def)
  have a2: "applyPayments acct0 [payOf ''pay-a'' 100, payOf ''pay-b'' 50] = Inr ?over"
    by (simp add: acct0_def acctPaid_def payOf_def inv0_def applyPayment_def recompute_def
        Let_def)
  have f: "payments acct0 = []" "total (invoice acct0) = 135" "status (invoice acct0) = sent"
    by (simp_all add: acct0_def inv0_def)
  from applied_payments_balance [OF a1] f
  have 1: "balance (invoice acctPaid) = 0 \<and> status (invoice acctPaid) = paid"
    by (simp add: payOf_def)
  from a1 a2 f 1 show ?thesis by simp
qed

text \<open>
  C2 as stated fails: a payment of 135 applied to the cancelled invoice of total 135
  brings the balance to 0, and the status is still \<open>cancelled\<close>.
\<close>

theorem cancelled_invoice_not_paid:
  "status (invoice acctCancelled) = cancelled \<and> total (invoice acctCancelled) = 135
   \<and> applyPayments acctCancelled [payOf ''pay-a'' 135] =
       Inr (acctCancelled\<lparr>invoice := (invoice acctCancelled)\<lparr>paidAmount := 135, balance := 0\<rparr>,
                          payments := [payOf ''pay-a'' 135]\<rparr>)
   \<and> status (invoice (acctCancelled\<lparr>invoice :=
                 (invoice acctCancelled)\<lparr>paidAmount := 135, balance := 0\<rparr>,
               payments := [payOf ''pay-a'' 135]\<rparr>)) = cancelled"
  by (simp add: acctCancelled_def payOf_def inv0_def applyPayment_def recompute_def Let_def)

subsection \<open>C6: removing a payment, and cancelled invoices\<close>

text \<open>
  C6. When a payment application has turned an invoice \<open>paid\<close> and a payment is then
  removed so that the recomputed balance is above 0, the status goes back to \<open>sent\<close>;
  the same holds of every invoice recorded as paid by a payment application. A
  cancelled invoice is not reverted by a removal, and a valid payment applied to a
  cancelled invoice is accepted, recomputes the paid amount and the balance, and
  leaves the status \<open>cancelled\<close>.
\<close>

theorem removal_reverts_auto_paid:
  "(applyPayment a0 p0 = Inr a1 \<and> status (invoice a0) \<noteq> paid \<and> status (invoice a1) = paid
      \<and> removePayment a1 pid = Inr a2 \<and> 0 < balance (invoice a2)
    \<longrightarrow> status (invoice a2) = sent)
   \<and> (status (invoice a) = paid \<and> autoPaid a
      \<and> removePayment a pid = Inr a' \<and> 0 < balance (invoice a')
    \<longrightarrow> status (invoice a') = sent)
   \<and> (status (invoice a) = cancelled \<and> removePayment a pid = Inr a'
    \<longrightarrow> status (invoice a') = cancelled)
   \<and> (status (invoice a) = cancelled \<and> 0 < amount p \<and> invoiceId p = invoice_id (invoice a)
    \<longrightarrow> applyPayment a p =
          Inr (a\<lparr>invoice :=
                   (invoice a)\<lparr>paidAmount := sum_list (map amount (payments a @ [p])),
                               balance :=
                                 total (invoice a) - sum_list (map amount (payments a @ [p]))\<rparr>,
                 payments := payments a @ [p]\<rparr>))"
proof -
  have auto_flag: "applyPayment a0 p0 = Inr a1 \<and> status (invoice a0) \<noteq> paid
      \<and> status (invoice a1) = paid \<longrightarrow> autoPaid a1"
    by (auto simp add: applyPayment_def recompute_def Let_def split: if_splits)
  have revert: "\<And>b b'. status (invoice b) = paid \<and> autoPaid b
      \<and> removePayment b pid = Inr b' \<and> 0 < balance (invoice b')
    \<longrightarrow> status (invoice b') = sent"
    by (auto simp add: removePayment_def recompute_def Let_def split: if_splits)
  have keep: "status (invoice a) = cancelled \<and> removePayment a pid = Inr a'
    \<longrightarrow> status (invoice a') = cancelled"
    by (auto simp add: removePayment_def recompute_def Let_def split: if_splits)
  have late: "status (invoice a) = cancelled \<and> 0 < amount p
      \<and> invoiceId p = invoice_id (invoice a)
    \<longrightarrow> applyPayment a p =
          Inr (a\<lparr>invoice :=
                   (invoice a)\<lparr>paidAmount := sum_list (map amount (payments a @ [p])),
                               balance :=
                                 total (invoice a) - sum_list (map amount (payments a @ [p]))\<rparr>,
                 payments := payments a @ [p]\<rparr>)"
    by (simp add: applyPayment_def recompute_def Let_def)
  from auto_flag revert [of a1 a2] revert [of a a'] keep late show ?thesis
    by blast
qed

text \<open>
  The payment of 35 pays the invoice and its removal reverts it to \<open>sent\<close> with
  balance 35; the same removal on the cancelled invoice, and a late payment of 100 on
  the cancelled invoice, leave it cancelled with balance 35.
\<close>

theorem removal_reverts_auto_paid_witness:
  "applyPayment acct100 (payOf ''pay-b'' 35) = Inr acctPaid
   \<and> status (invoice acct100) = sent \<and> status (invoice acctPaid) = paid
   \<and> removePayment acctPaid ''pay-b'' = Inr acct100
   \<and> balance (invoice acct100) = 35
   \<and> removePayment (acctPaid\<lparr>invoice := (invoice acctPaid)\<lparr>status := cancelled\<rparr>\<rparr>) ''pay-b'' =
       Inr (acctPaid\<lparr>invoice := (invoice acctPaid)\<lparr>status := cancelled, paidAmount := 100,
                                                  balance := 35\<rparr>,
                     payments := [payOf ''pay-a'' 100]\<rparr>)
   \<and> applyPayment acctCancelled (payOf ''pay-a'' 100) =
       Inr (acctCancelled\<lparr>invoice := (invoice acctCancelled)\<lparr>paidAmount := 100, balance := 35\<rparr>,
                          payments := [payOf ''pay-a'' 100]\<rparr>)"
proof -
  let ?ac = "acctPaid\<lparr>invoice := (invoice acctPaid)\<lparr>status := cancelled\<rparr>\<rparr>"
  let ?c = "acctPaid\<lparr>invoice := (invoice acctPaid)\<lparr>status := cancelled, paidAmount := 100,
                                                  balance := 35\<rparr>,
                     payments := [payOf ''pay-a'' 100]\<rparr>"
  have ap: "applyPayment acct100 (payOf ''pay-b'' 35) = Inr acctPaid"
    by (simp add: applyPayment_def recompute_def Let_def acct100_def acctPaid_def payOf_def
        inv0_def)
  have rp: "removePayment acctPaid ''pay-b'' = Inr acct100"
    by (simp add: removePayment_def recompute_def Let_def acct100_def acctPaid_def payOf_def
        inv0_def)
  have st: "status (invoice acct100) \<noteq> paid" "status (invoice acctPaid) = paid"
    "0 < balance (invoice acct100)" "balance (invoice acct100) = 35"
    by (simp_all add: acct100_def acctPaid_def)
  have rc: "removePayment ?ac ''pay-b'' = Inr ?c"
    by (simp add: removePayment_def recompute_def Let_def acctPaid_def payOf_def inv0_def)
  have cs: "status (invoice ?ac) = cancelled" "status (invoice acctCancelled) = cancelled"
    "0 < amount (payOf ''pay-a'' 100)"
    "invoiceId (payOf ''pay-a'' 100) = invoice_id (invoice acctCancelled)"
    by (simp_all add: acctCancelled_def payOf_def inv0_def)
  note t = removal_reverts_auto_paid
  from t [of acct100 "payOf ''pay-b'' 35" acctPaid "''pay-b''" acct100] ap rp st
  have 1: "status (invoice acct100) = sent"
    by blast
  from t [where a = acctCancelled and p = "payOf ''pay-a'' 100"] cs
  have 3: "applyPayment acctCancelled (payOf ''pay-a'' 100) =
      Inr (acctCancelled\<lparr>invoice :=
             (invoice acctCancelled)\<lparr>paidAmount :=
                 sum_list (map amount (payments acctCancelled @ [payOf ''pay-a'' 100])),
               balance := total (invoice acctCancelled)
                 - sum_list (map amount (payments acctCancelled @ [payOf ''pay-a'' 100]))\<rparr>,
             payments := payments acctCancelled @ [payOf ''pay-a'' 100]\<rparr>)"
    by blast
  have 4: "applyPayment acctCancelled (payOf ''pay-a'' 100) =
       Inr (acctCancelled\<lparr>invoice := (invoice acctCancelled)\<lparr>paidAmount := 100, balance := 35\<rparr>,
                          payments := [payOf ''pay-a'' 100]\<rparr>)"
    unfolding 3 by (simp add: acctCancelled_def payOf_def inv0_def)
  from ap rp st 1 rc 4 show ?thesis
    by simp
qed

subsection \<open>C8: overdue is derived when the invoice is read\<close>

text \<open>
  C8. The status read is \<open>overdue\<close> exactly when the current date is after the due
  date, the balance is above 0 and the stored status is neither \<open>cancelled\<close> nor
  \<open>paid\<close>; an invoice past its due date with balance 35 and stored status \<open>sent\<close>
  reads as \<open>overdue\<close>.
\<close>

theorem overdue_at_read_time:
  "(readStatus now iv = overdue) =
     (after now (dueDate iv) \<and> 0 < balance iv \<and> status iv \<noteq> cancelled \<and> status iv \<noteq> paid)
   \<and> (after now (dueDate iv) \<and> balance iv = 35 \<and> status iv = sent
      \<longrightarrow> readStatus now iv = overdue)"
  by (auto simp add: readStatus_def)

text \<open>
  The invoice with balance 35, read one millisecond after and one millisecond before
  its due date.
\<close>

theorem overdue_at_read_time_witness:
  "after (Date 2592000001) (dueDate (invoice acct100)) \<and> balance (invoice acct100) = 35
   \<and> status (invoice acct100) = sent
   \<and> readStatus (Date 2592000001) (invoice acct100) = overdue
   \<and> readStatus (Date 2591999999) (invoice acct100) = sent"
proof -
  have h: "after (Date 2592000001) (dueDate (invoice acct100)) \<and> balance (invoice acct100) = 35
      \<and> status (invoice acct100) = sent"
    by (simp add: acct100_def inv0_def)
  have n: "\<not> after (Date 2591999999) (dueDate (invoice acct100))"
    by (simp add: acct100_def inv0_def)
  from overdue_at_read_time [of "Date 2592000001" "invoice acct100"] h
  have 1: "readStatus (Date 2592000001) (invoice acct100) = overdue"
    by blast
  from overdue_at_read_time [of "Date 2591999999" "invoice acct100"] n
  have 2: "readStatus (Date 2591999999) (invoice acct100) \<noteq> overdue"
    by blast
  then have "readStatus (Date 2591999999) (invoice acct100) = sent"
    using h by (simp add: readStatus_def split: if_splits)
  with h 1 show ?thesis by simp
qed

end
